theory Spec2Isabelle
  imports Complex_Main
begin

text \<open>
  A shallow embedding of the back office of the uniform manufacturer's application: the
  stock, totals and payment methods of the Product and Order schemas, the methods and the
  number generator of the Inquiry schema, and the routes that convert an inquiry into a
  customer and delete inquiries and orders. Each definition follows the JavaScript it
  names; the theorems after them settle the claims C1 to C10 of the specification.
\<close>

section \<open>Common values\<close>

text \<open>
  Document ids (\<open>mongoose.Schema.Types.ObjectId\<close>) are strings. A field that may be
  \<open>undefined\<close> is an \<open>option\<close>. Money (\<open>unitPrice\<close>, \<open>totalPrice\<close>, \<open>subtotal\<close>,
  \<open>paidAmount\<close>, ...) is an exact rational: the rounding of IEEE doubles is not modelled.
  Stock levels and the quantities of stored line items are integers. A quantity as it
  comes in a request body is a number or a string (\<open>js_value\<close> below) wherever the
  handler's arithmetic tells the two apart.
\<close>

type_synonym objectId = string

text \<open>JavaScript truthiness of a string, a number and an object reference.\<close>

definition truthy_str :: "string option \<Rightarrow> bool" where
  "truthy_str s = (case s of None \<Rightarrow> False | Some v \<Rightarrow> v \<noteq> [])"

definition truthy_num :: "int option \<Rightarrow> bool" where
  "truthy_num n = (case n of None \<Rightarrow> False | Some v \<Rightarrow> v \<noteq> 0)"

definition truthy_ref :: "'a option \<Rightarrow> bool" where
  "truthy_ref r = (r \<noteq> None)"

text \<open>\<open>x || 0\<close> on a number that may be undefined.\<close>

definition or0 :: "rat option \<Rightarrow> rat" where
  "or0 x = (case x of None \<Rightarrow> 0 | Some v \<Rightarrow> (if v = 0 then 0 else v))"

section \<open>Decimal strings and request values\<close>

text \<open>\<open>String(n)\<close> of a non-negative integer, \<open>padStart\<close>, and the number a digit string denotes.\<close>

definition digitChar :: "nat \<Rightarrow> char" where
  "digitChar d = ''0123456789'' ! d"

fun String_nat :: "nat \<Rightarrow> string" where
  "String_nat n = (if n < 10 then [digitChar n]
                   else String_nat (n div 10) @ [digitChar (n mod 10)])"

declare String_nat.simps [simp del]

definition padStart :: "nat \<Rightarrow> char \<Rightarrow> string \<Rightarrow> string" where
  "padStart targetLength c s = replicate (targetLength - length s) c @ s"

definition Number_str :: "string \<Rightarrow> nat" where
  "Number_str s = foldl (\<lambda>a c. 10 * a + (of_char c - 48)) 0 s"

text \<open>
  A value that reaches a handler in \<open>req.body\<close> where a number is expected: a JSON number,
  or a string (a JSON string, or any field of a urlencoded body). The validators of
  express-validator (\<open>isInt\<close>, \<open>isFloat\<close>) check such a value and leave it as it is.
\<close>

datatype js_value = JNum int | JStr string

text \<open>
  \<open>String(n)\<close> of an integer, and \<open>Number(s)\<close> of a string, \<open>None\<close> standing for \<open>NaN\<close>.
  \<open>Number_of_string\<close> is exact on the strings made of decimal digits and signs, which are
  the strings \<open>isInt\<close> accepts and what the concatenation of a decimal number with one of
  them gives; the other forms of numeric literal (blanks, fractions, exponents, hexadecimal)
  are not modelled.
\<close>

definition String_int :: "int \<Rightarrow> string" where
  "String_int i = (if i < 0 then ''-'' @ String_nat (nat (- i)) else String_nat (nat i))"

definition isDigits :: "string \<Rightarrow> bool" where
  "isDigits s = (s \<noteq> [] \<and> list_all (\<lambda>c. c \<in> set ''0123456789'') s)"

definition Number_of_string :: "string \<Rightarrow> int option" where
  "Number_of_string s =
     (case s of
        [] \<Rightarrow> Some 0
      | c # cs \<Rightarrow>
          if c = CHR ''+'' then (if isDigits cs then Some (int (Number_str cs)) else None)
          else if c = CHR ''-'' then (if isDigits cs then Some (- int (Number_str cs)) else None)
          else if isDigits s then Some (int (Number_str s)) else None)"

text \<open>
  \<open>ToNumber\<close>, the coercion that \<open>-\<close>, \<open>*\<close>, \<open><\<close> and \<open>Math.max\<close> apply to an operand and
  that mongoose applies when a value is assigned to a \<open>Number\<close> path; and \<open>a + b\<close> for a
  number \<open>a\<close>, which concatenates when \<open>b\<close> is a string.
\<close>

definition ToNumber :: "js_value \<Rightarrow> int option" where
  "ToNumber v = (case v of JNum n \<Rightarrow> Some n | JStr s \<Rightarrow> Number_of_string s)"

definition js_plus :: "int \<Rightarrow> js_value \<Rightarrow> js_value" where
  "js_plus a b = (case b of JNum n \<Rightarrow> JNum (a + n) | JStr s \<Rightarrow> JStr (String_int a @ s))"

text \<open>\<open>isInt({ min: 1 })\<close>: an optional sign and decimal digits, with a value of at least 1.\<close>

definition isInt_min1 :: "js_value \<Rightarrow> bool" where
  "isInt_min1 v =
     (case v of
        JNum n \<Rightarrow> 1 \<le> n
      | JStr s \<Rightarrow> s \<noteq> [] \<and> (case Number_of_string s of None \<Rightarrow> False | Some n \<Rightarrow> 1 \<le> n))"

section \<open>Product: stock\<close>

text \<open>
  \<open>productSchema\<close> (models/Product.js), the fields the stock operations read and write.
  \<open>stockQuantity\<close> has \<open>default: 0, min: 0\<close>.
\<close>

record product =
  p_id :: objectId
  p_name :: string
  p_code :: string
  stockQuantity :: int
  reorderLevel :: int

text \<open>
  \<open>productSchema.methods.updateStock(quantity, operation = 'decrease')\<close>, with the
  \<open>quantity\<close> as it is passed in. \<open>this.stockQuantity - quantity\<close> coerces the quantity to
  a number; \<open>this.stockQuantity += quantity\<close> adds a number and concatenates a string, and
  the assignment to the \<open>Number\<close> path casts the result back. The result is the document
  that \<open>this.save()\<close> writes, or \<open>None\<close> where the value assigned is \<open>NaN\<close> or not a
  number, so that the cast fails and \<open>save\<close> rejects. Any other operation string changes
  nothing.
\<close>

definition updateStock :: "product \<Rightarrow> js_value \<Rightarrow> string \<Rightarrow> product option" where
  "updateStock p quantity operation =
     (if operation = ''decrease'' then
        (case ToNumber quantity of
           None \<Rightarrow> None
         | Some q \<Rightarrow> Some (p\<lparr>stockQuantity := max 0 (stockQuantity p - q)\<rparr>))
      else if operation = ''increase'' then
        (case ToNumber (js_plus (stockQuantity p) quantity) of
           None \<Rightarrow> None
         | Some v \<Rightarrow> Some (p\<lparr>stockQuantity := v\<rparr>))
      else Some p)"

text \<open>
  A sequence of calls on one product, each on the document the call before has written;
  a call whose \<open>save\<close> rejects writes nothing.
\<close>

fun updateStock_calls :: "product \<Rightarrow> (js_value \<times> string) list \<Rightarrow> product" where
  "updateStock_calls p [] = p"
| "updateStock_calls p ((q, operation) # cs) =
     updateStock_calls (case updateStock p q operation of None \<Rightarrow> p | Some p' \<Rightarrow> p') cs"

section \<open>Order: totals and payment\<close>

text \<open>One element of \<open>orderSchema.items\<close>.\<close>

record order_item =
  product_ref :: objectId
  productName :: string
  productCode :: string
  quantity :: int
  unitPrice :: rat
  totalPrice :: rat

text \<open>The \<open>itemData\<close> object that \<open>addItem\<close> receives (no \<open>totalPrice\<close> yet).\<close>

record item_data =
  d_product :: objectId
  d_productName :: string
  d_productCode :: string
  d_quantity :: int
  d_unitPrice :: rat

text \<open>\<open>orderSchema\<close> (models/Order.js), the fields the order operations read and write.\<close>

record order =
  o_id :: objectId
  orderNumber :: string
  o_status :: string
  o_customer :: objectId
  items :: "order_item list option"
  subtotal :: rat
  tax :: "rat option"
  discount :: "rat option"
  shippingCost :: "rat option"
  totalAmount :: rat
  paymentStatus :: string
  paidAmount :: rat

text \<open>
  \<open>orderSchema.methods.calculateTotals\<close>: \<open>items.reduce((sum, item) => sum + item.totalPrice, 0)\<close>
  is a left fold; a missing \<open>items\<close> gives subtotal 0.
\<close>

definition calculateTotals :: "order \<Rightarrow> order" where
  "calculateTotals ord =
     (let o1 = (case items ord of
                  None \<Rightarrow> ord\<lparr>subtotal := 0\<rparr>
                | Some its \<Rightarrow> ord\<lparr>subtotal := foldl (\<lambda>sum item. sum + totalPrice item) 0 its\<rparr>)
      in o1\<lparr>totalAmount := subtotal o1 + or0 (tax o1) + or0 (shippingCost o1) - or0 (discount o1)\<rparr>)"

text \<open>\<open>orderSchema.methods.addItem\<close>: \<open>{...itemData, totalPrice: quantity * unitPrice}\<close>.\<close>

definition item_of_data :: "item_data \<Rightarrow> order_item" where
  "item_of_data d =
     \<lparr>product_ref = d_product d, productName = d_productName d, productCode = d_productCode d,
      quantity = d_quantity d, unitPrice = d_unitPrice d,
      totalPrice = of_int (d_quantity d) * d_unitPrice d\<rparr>"

definition addItem :: "order \<Rightarrow> item_data \<Rightarrow> order" where
  "addItem ord itemData =
     (let o1 = (case items ord of None \<Rightarrow> ord\<lparr>items := Some []\<rparr> | Some _ \<Rightarrow> ord);
          o2 = o1\<lparr>items := Some (the (items o1) @ [item_of_data itemData])\<rparr>
      in calculateTotals o2)"

text \<open>\<open>orderSchema.methods.updatePayment\<close>: there is no final \<open>else\<close>.\<close>

definition updatePayment :: "order \<Rightarrow> rat \<Rightarrow> order" where
  "updatePayment ord amount =
     (let o1 = ord\<lparr>paidAmount := paidAmount ord + amount\<rparr>
      in if paidAmount o1 \<ge> totalAmount o1 then o1\<lparr>paymentStatus := ''paid''\<rparr>
         else if paidAmount o1 > 0 then o1\<lparr>paymentStatus := ''partial''\<rparr>
         else o1)"

text \<open>The line items of an order, none when \<open>items\<close> is missing.\<close>

definition items_of :: "order \<Rightarrow> order_item list" where
  "items_of ord = (case items ord of None \<Rightarrow> [] | Some its \<Rightarrow> its)"

section \<open>Dates\<close>

text \<open>
  A \<open>Date\<close> is a point of local time, kept as the number of whole calendar months since
  the start of year 0 and the time elapsed within that month (in milliseconds). Dates
  compare as their time values do: first by month, then by the offset within it.
  \<open>new Date(year, monthIndex, 1)\<close> is local midnight at the first of the month, with a
  \<open>monthIndex\<close> of 12 rolling over into the next year, as JavaScript normalises it.
\<close>

record date =
  monthCount :: nat
  offset :: nat

definition getFullYear :: "date \<Rightarrow> nat" where
  "getFullYear d = monthCount d div 12"

definition getMonth :: "date \<Rightarrow> nat" where
  "getMonth d = monthCount d mod 12"

definition Date_first :: "nat \<Rightarrow> nat \<Rightarrow> date" where
  "Date_first year monthIndex = \<lparr>monthCount = year * 12 + monthIndex, offset = 0\<rparr>"

definition date_lt :: "date \<Rightarrow> date \<Rightarrow> bool" where
  "date_lt a b = (monthCount a < monthCount b \<or> (monthCount a = monthCount b \<and> offset a < offset b))"

definition date_gte :: "date \<Rightarrow> date \<Rightarrow> bool" where
  "date_gte a b = (\<not> date_lt a b)"

section \<open>Inquiry\<close>

text \<open>The nested \<open>address\<close> object of Inquiry and Customer; \<open>country\<close> has \<open>default: 'India'\<close>.\<close>

record address =
  street :: "string option"
  city :: "string option"
  state :: "string option"
  pincode :: "string option"
  country :: "string option"

text \<open>An element of \<open>inquirySchema.communications\<close>, and the \<open>commData\<close> it is built from.\<close>

record comm_data =
  cd_type :: string
  cd_subject :: "string option"
  cd_content :: string
  cd_direction :: string
  cd_outcome :: "string option"
  cd_nextAction :: "string option"

record communication =
  cm_data :: comm_data
  cm_date :: date
  cm_createdBy :: objectId

text \<open>An element of \<open>inquirySchema.notes\<close>.\<close>

record inquiry_note =
  n_content :: string
  n_createdBy :: objectId
  n_isInternal :: bool
  n_createdAt :: date

text \<open>\<open>inquirySchema.convertedTo\<close>.\<close>

record conversion =
  cv_order :: "objectId option"
  cv_customer :: "objectId option"
  conversionDate :: "date option"
  conversionValue :: "rat option"

text \<open>
  \<open>inquirySchema\<close> (models/Inquiry.js), the fields the methods and the routes read and
  write. The string fields have been through the schema's \<open>trim\<close> and \<open>lowercase\<close> setters.
\<close>

record inquiry =
  i_id :: objectId
  inquiryNumber :: string
  i_status :: string
  customerName :: string
  i_email :: string
  i_phone :: "string option"
  i_company :: "string option"
  i_address :: "address option"
  i_businessType :: "string option"
  i_industry :: "string option"
  i_employeeCount :: "int option"
  uniformType :: string
  requirements_description :: "string option"
  i_source :: "string option"
  communications :: "communication list"
  i_lastContact :: "date option"
  nextFollowUp :: "date option"
  followUpNotes :: "string option"
  i_assignedTo :: "objectId option"
  assignedDate :: "date option"
  convertedTo :: conversion
  i_notes :: "inquiry_note list"
  inquiryDate :: date
  firstResponseTime :: "date option"
  resolutionTime :: "date option"

text \<open>
  The methods of the schema. Each is \<open>this\<close> after the method's body; \<open>now\<close> is the value
  of \<open>new Date()\<close>. A default parameter \<open>notes = ''\<close> is the empty string when absent.
\<close>

definition addNote :: "inquiry \<Rightarrow> string \<Rightarrow> objectId \<Rightarrow> bool \<Rightarrow> date \<Rightarrow> inquiry" where
  "addNote inq content userId isInternal now =
     inq\<lparr>i_notes := i_notes inq @
       [\<lparr>n_content = content, n_createdBy = userId, n_isInternal = isInternal, n_createdAt = now\<rparr>]\<rparr>"

definition addCommunication :: "inquiry \<Rightarrow> comm_data \<Rightarrow> objectId \<Rightarrow> date \<Rightarrow> inquiry" where
  "addCommunication inq commData userId now =
     (let i1 = inq\<lparr>communications := communications inq @
                  [\<lparr>cm_data = commData, cm_date = now, cm_createdBy = userId\<rparr>]\<rparr>;
          i2 = i1\<lparr>i_lastContact := Some now\<rparr>
      in if cd_direction commData = ''outbound'' \<and> \<not> truthy_ref (firstResponseTime i2)
         then i2\<lparr>firstResponseTime := Some now\<rparr> else i2)"

definition updateStatus :: "inquiry \<Rightarrow> string \<Rightarrow> objectId \<Rightarrow> string \<Rightarrow> date \<Rightarrow> inquiry" where
  "updateStatus inq newStatus userId notes now =
     (let i1 = inq\<lparr>i_status := newStatus\<rparr>;
          i2 = (if newStatus = ''converted'' \<and> \<not> truthy_ref (conversionDate (convertedTo i1))
                then i1\<lparr>convertedTo := (convertedTo i1)\<lparr>conversionDate := Some now\<rparr>,
                        resolutionTime := Some now\<rparr>
                else i1)
      in if notes \<noteq> [] then
           addNote i2 (''Status changed to '' @ newStatus @ '': '' @ notes) userId True now
         else i2)"

definition assignTo :: "inquiry \<Rightarrow> objectId \<Rightarrow> string \<Rightarrow> date \<Rightarrow> inquiry" where
  "assignTo inq userId notes now =
     (let i1 = inq\<lparr>i_assignedTo := Some userId, assignedDate := Some now\<rparr>
      in if notes \<noteq> [] then addNote i1 (''Assigned to user: '' @ notes) userId True now else i1)"

definition scheduleFollowUp :: "inquiry \<Rightarrow> date \<Rightarrow> string \<Rightarrow> inquiry" where
  "scheduleFollowUp inq d notes = inq\<lparr>nextFollowUp := Some d, followUpNotes := Some notes\<rparr>"

definition convertToCustomer ::
  "inquiry \<Rightarrow> objectId \<Rightarrow> objectId option \<Rightarrow> rat \<Rightarrow> date \<Rightarrow> inquiry" where
  "convertToCustomer inq customerId orderId conversionValue' now =
     inq\<lparr>i_status := ''converted'',
         convertedTo := \<lparr>cv_order = orderId, cv_customer = Some customerId,
                         conversionDate = Some now, conversionValue = Some conversionValue'\<rparr>,
         resolutionTime := Some now\<rparr>"

text \<open>A call of one of the six methods, and its effect on the document.\<close>

datatype inquiry_call =
    AddCommunication comm_data objectId
  | AddNote string objectId bool
  | UpdateStatus string objectId string
  | AssignTo objectId string
  | ScheduleFollowUp date string
  | ConvertToCustomer objectId "objectId option" rat

fun call_method :: "inquiry \<Rightarrow> inquiry_call \<Rightarrow> date \<Rightarrow> inquiry" where
  "call_method inq (AddCommunication commData userId) now = addCommunication inq commData userId now"
| "call_method inq (AddNote content userId isInternal) now = addNote inq content userId isInternal now"
| "call_method inq (UpdateStatus newStatus userId notes) now = updateStatus inq newStatus userId notes now"
| "call_method inq (AssignTo userId notes) now = assignTo inq userId notes now"
| "call_method inq (ScheduleFollowUp d notes) now = scheduleFollowUp inq d notes"
| "call_method inq (ConvertToCustomer customerId orderId v) now = convertToCustomer inq customerId orderId v now"

fun is_ConvertToCustomer :: "inquiry_call \<Rightarrow> bool" where
  "is_ConvertToCustomer (ConvertToCustomer _ _ _) = True"
| "is_ConvertToCustomer _ = False"

text \<open>
  \<open>inquirySchema.statics.generateInquiryNumber\<close>: the argument \<open>docs\<close> is the collection
  that \<open>countDocuments\<close> counts in, \<open>now\<close> the value of \<open>new Date()\<close>.
\<close>

definition in_month_of :: "date \<Rightarrow> inquiry \<Rightarrow> bool" where
  "in_month_of now inq =
     (date_gte (inquiryDate inq) (Date_first (getFullYear now) (getMonth now)) \<and>
      date_lt (inquiryDate inq) (Date_first (getFullYear now) (getMonth now + 1)))"

definition countDocuments :: "('a \<Rightarrow> bool) \<Rightarrow> 'a list \<Rightarrow> nat" where
  "countDocuments query docs = length (filter query docs)"

definition generateInquiryNumber :: "inquiry list \<Rightarrow> date \<Rightarrow> string" where
  "generateInquiryNumber docs now =
     (let year = getFullYear now;
          month = padStart 2 CHR ''0'' (String_nat (getMonth now + 1));
          count = countDocuments (in_month_of now) docs
      in ''INQ'' @ String_nat year @ month @ padStart 4 CHR ''0'' (String_nat (count + 1)))"

section \<open>Customer\<close>

text \<open>An element of \<open>customerSchema.notes\<close>.\<close>

record customer_note =
  cn_content :: string
  cn_createdBy :: objectId
  cn_createdAt :: date

text \<open>
  \<open>customerSchema\<close> (models/Customer.js), the fields the conversion reads and writes.
  \<open>source\<close> and \<open>status\<close> carry a schema default, so they are always strings.
\<close>

record customer =
  c_id :: objectId
  c_name :: string
  c_email :: string
  c_phone :: "string option"
  c_company :: "string option"
  c_address :: "address option"
  c_businessType :: "string option"
  c_industry :: "string option"
  c_employeeCount :: "int option"
  c_status :: string
  c_source :: string
  c_notes :: "customer_note list"
  c_tags :: "string list"
  c_assignedTo :: "objectId option"
  c_lastContact :: "date option"
  c_totalOrders :: int
  c_totalRevenue :: rat
  c_lastOrderDate :: "date option"

text \<open>The \<open>enum\<close> lists of the two schemas.\<close>

definition businessType_enum :: "string list" where
  "businessType_enum = [''school'', ''college'', ''hotel'', ''hospital'', ''corporate'',
     ''industrial'', ''individual'', ''other'']"

definition customer_status_enum :: "string list" where
  "customer_status_enum = [''prospect'', ''active'', ''inactive'', ''lead'']"

definition customer_source_enum :: "string list" where
  "customer_source_enum = [''website'', ''referral'', ''cold-call'', ''social-media'',
     ''advertisement'', ''other'']"

definition inquiry_source_enum :: "string list" where
  "inquiry_source_enum = [''website'', ''phone'', ''email'', ''walk-in'', ''referral'',
     ''social-media'', ''advertisement'', ''other'']"

text \<open>
  What \<open>customer.save()\<close> validates before it writes: the \<open>required\<close>, \<open>enum\<close> and \<open>min\<close>
  validators of \<open>customerSchema\<close> on the fields above. A document that fails is not written
  and \<open>save\<close> rejects.
\<close>

definition customer_valid :: "customer \<Rightarrow> bool" where
  "customer_valid c =
     (c_name c \<noteq> [] \<and> c_email c \<noteq> [] \<and>
      (case c_businessType c of None \<Rightarrow> False | Some b \<Rightarrow> b \<in> set businessType_enum) \<and>
      (case c_employeeCount c of None \<Rightarrow> True | Some n \<Rightarrow> 1 \<le> n) \<and>
      c_status c \<in> set customer_status_enum \<and>
      c_source c \<in> set customer_source_enum)"

text \<open>\<open>customerSchema.methods.addNote\<close> and \<open>customerSchema.methods.updateStats\<close>.\<close>

definition customer_addNote :: "customer \<Rightarrow> string \<Rightarrow> objectId \<Rightarrow> date \<Rightarrow> customer" where
  "customer_addNote c content userId now =
     c\<lparr>c_notes := c_notes c @ [\<lparr>cn_content = content, cn_createdBy = userId, cn_createdAt = now\<rparr>]\<rparr>"


section \<open>The collections\<close>

text \<open>
  One list per collection, in insertion order. \<open>findById\<close> and \<open>findOne\<close> return the first
  match; saving a loaded document and \<open>findByIdAndDelete\<close> act on the first document with
  that id.
\<close>

record db =
  customers :: "customer list"
  inquiries :: "inquiry list"
  products :: "product list"
  orders :: "order list"

fun replace_first :: "('a \<Rightarrow> bool) \<Rightarrow> 'a \<Rightarrow> 'a list \<Rightarrow> 'a list" where
  "replace_first P y [] = []"
| "replace_first P y (x # xs) = (if P x then y # xs else x # replace_first P y xs)"

fun delete_first :: "('a \<Rightarrow> bool) \<Rightarrow> 'a list \<Rightarrow> 'a list" where
  "delete_first P [] = []"
| "delete_first P (x # xs) = (if P x then xs else x # delete_first P xs)"

definition Inquiry_findById :: "db \<Rightarrow> objectId \<Rightarrow> inquiry option" where
  "Inquiry_findById db ident = find (\<lambda>i. i_id i = ident) (inquiries db)"

definition Inquiry_save :: "db \<Rightarrow> inquiry \<Rightarrow> db" where
  "Inquiry_save db inq = db\<lparr>inquiries := replace_first (\<lambda>i. i_id i = i_id inq) inq (inquiries db)\<rparr>"

definition Inquiry_findByIdAndDelete :: "db \<Rightarrow> objectId \<Rightarrow> db" where
  "Inquiry_findByIdAndDelete db ident = db\<lparr>inquiries := delete_first (\<lambda>i. i_id i = ident) (inquiries db)\<rparr>"

definition Customer_findOne_email :: "db \<Rightarrow> string \<Rightarrow> customer option" where
  "Customer_findOne_email db email = find (\<lambda>c. c_email c = email) (customers db)"

definition Customer_save :: "db \<Rightarrow> customer \<Rightarrow> db" where
  "Customer_save db c = db\<lparr>customers := replace_first (\<lambda>x. c_id x = c_id c) c (customers db)\<rparr>"

definition Customer_insert :: "db \<Rightarrow> customer \<Rightarrow> db" where
  "Customer_insert db c = db\<lparr>customers := customers db @ [c]\<rparr>"

definition Product_findById :: "product list \<Rightarrow> objectId \<Rightarrow> product option" where
  "Product_findById ps ident = find (\<lambda>p. p_id p = ident) ps"


definition Product_save :: "product list \<Rightarrow> product \<Rightarrow> product list" where
  "Product_save ps p = replace_first (\<lambda>x. p_id x = p_id p) p ps"



text \<open>The responses of the routes: an error with its HTTP status, or the success payload.\<close>

datatype error =
    Validation_errors
  | Inquiry_not_found
  | Already_converted
  | Cannot_delete_converted
  | Order_not_found
  | Only_draft_orders
  | Customer_not_found
  | Product_not_found
  | Insufficient_stock
  | Server_error

fun http_status :: "error \<Rightarrow> nat" where
  "http_status Validation_errors = 400"
| "http_status Inquiry_not_found = 404"
| "http_status Already_converted = 400"
| "http_status Cannot_delete_converted = 400"
| "http_status Order_not_found = 404"
| "http_status Only_draft_orders = 400"
| "http_status Customer_not_found = 404"
| "http_status Product_not_found = 404"
| "http_status Insufficient_stock = 400"
| "http_status Server_error = 500"

section \<open>Conversion of an inquiry to a customer\<close>

text \<open>
  \<open>POST /api/inquiries/:id/convert-to-customer\<close> (routes/inquiries.js). The request body
  after the sanitizers; \<open>authenticateToken\<close> and \<open>checkPermission\<close> have let the request
  through and \<open>userId\<close> is \<open>req.user._id\<close>.
\<close>

record convert_body =
  additionalNotes :: "string option"
  body_assignTo :: "objectId option"
  customerStatus :: "string option"

definition isMongoId :: "string \<Rightarrow> bool" where
  "isMongoId s = (length s = 24 \<and> list_all (\<lambda>c. c \<in> set ''0123456789abcdefABCDEF'') s)"

definition convert_validation :: "convert_body \<Rightarrow> bool" where
  "convert_validation body =
     ((case body_assignTo body of None \<Rightarrow> True | Some a \<Rightarrow> isMongoId a) \<and>
      (case customerStatus body of None \<Rightarrow> True | Some s \<Rightarrow> s \<in> set customer_status_enum))"

text \<open>\<open>s || d\<close> on a string that may be undefined.\<close>

definition or_str :: "string option \<Rightarrow> string \<Rightarrow> string" where
  "or_str s d = (case s of None \<Rightarrow> d | Some v \<Rightarrow> (if v = [] then d else v))"

text \<open>The merge of the inquiry's address into the customer's, subfield by subfield.\<close>

definition merge_address :: "address option \<Rightarrow> address option \<Rightarrow> address option" where
  "merge_address ia ca =
     (case ia of
        None \<Rightarrow> ca
      | Some a \<Rightarrow>
          (let c0 = (case ca of
                       None \<Rightarrow> \<lparr>street = None, city = None, state = None, pincode = None, country = None\<rparr>
                     | Some c \<Rightarrow> c);
               c1 = (if truthy_str (street a) \<and> \<not> truthy_str (street c0) then c0\<lparr>street := street a\<rparr> else c0);
               c2 = (if truthy_str (city a) \<and> \<not> truthy_str (city c1) then c1\<lparr>city := city a\<rparr> else c1);
               c3 = (if truthy_str (state a) \<and> \<not> truthy_str (state c2) then c2\<lparr>state := state a\<rparr> else c2);
               c4 = (if truthy_str (pincode a) \<and> \<not> truthy_str (pincode c3) then c3\<lparr>pincode := pincode a\<rparr> else c3);
               c5 = (if truthy_str (country a) \<and> \<not> truthy_str (country c4) then c4\<lparr>country := country a\<rparr> else c4)
           in Some c5))"

text \<open>The block under \<open>// Merge data from inquiry\<close>, line by line.\<close>

definition merge_inquiry :: "customer \<Rightarrow> inquiry \<Rightarrow> customer" where
  "merge_inquiry cust inq =
     (let c1 = (if truthy_str (i_company inq) \<and> \<not> truthy_str (c_company cust)
                then cust\<lparr>c_company := i_company inq\<rparr> else cust);
          c2 = (if truthy_str (i_phone inq) \<and> \<not> truthy_str (c_phone c1)
                then c1\<lparr>c_phone := i_phone inq\<rparr> else c1);
          c3 = (if truthy_str (i_businessType inq)
                then c2\<lparr>c_businessType := i_businessType inq\<rparr> else c2);
          c4 = (if truthy_str (i_industry inq) \<and> \<not> truthy_str (c_industry c3)
                then c3\<lparr>c_industry := i_industry inq\<rparr> else c3);
          c5 = (if truthy_num (i_employeeCount inq) \<and> \<not> truthy_num (c_employeeCount c4)
                then c4\<lparr>c_employeeCount := i_employeeCount inq\<rparr> else c4)
      in c5\<lparr>c_address := merge_address (i_address inq) (c_address c5)\<rparr>)"

text \<open>
  \<open>new Customer(customerData)\<close> in the other branch; the schema default \<open>'India'\<close> fills a
  missing \<open>address.country\<close>, and the statistics start at their defaults. \<open>newId\<close> is the
  \<open>_id\<close> the new document gets.
\<close>

definition address_defaults :: "address \<Rightarrow> address" where
  "address_defaults a = (if country a = None then a\<lparr>country := Some ''India''\<rparr> else a)"

definition new_customer ::
  "inquiry \<Rightarrow> convert_body \<Rightarrow> string \<Rightarrow> objectId \<Rightarrow> date \<Rightarrow> objectId \<Rightarrow> customer" where
  "new_customer inq body status userId now newId =
     \<lparr>c_id = newId,
      c_name = customerName inq,
      c_email = i_email inq,
      c_phone = Some (or_str (i_phone inq) []),
      c_company = Some (or_str (i_company inq) []),
      c_address = Some (address_defaults (case i_address inq of
                     None \<Rightarrow> \<lparr>street = None, city = None, state = None, pincode = None, country = None\<rparr>
                   | Some a \<Rightarrow> a)),
      c_businessType = i_businessType inq,
      c_industry = Some (or_str (i_industry inq) []),
      c_employeeCount = (if truthy_num (i_employeeCount inq) then i_employeeCount inq else None),
      c_status = status,
      c_source = or_str (i_source inq) ''website'',
      c_notes = [],
      c_tags = [''converted-from-'' @ uniformType inq, ''inquiry-conversion''],
      c_assignedTo = Some (if truthy_str (body_assignTo body) then the (body_assignTo body)
                           else if truthy_ref (i_assignedTo inq) then the (i_assignedTo inq)
                           else userId),
      c_lastContact = Some now,
      c_totalOrders = 0,
      c_totalRevenue = 0,
      c_lastOrderDate = None\<rparr>"

record convert_response =
  r_customer :: customer
  r_inquiry :: inquiry
  r_isNewCustomer :: bool

text \<open>
  The tail of the handler, after the customer is written: \<open>inquiry.convertToCustomer\<close>,
  then the communication record. Both save the inquiry; none of the fields they write has
  a validator that can fail.
\<close>

definition stamp_inquiry ::
  "db \<Rightarrow> inquiry \<Rightarrow> customer \<Rightarrow> bool \<Rightarrow> objectId \<Rightarrow> date \<Rightarrow> db \<times> (error + convert_response)" where
  "stamp_inquiry db' inq cust isNew userId now =
     (let i1 = convertToCustomer inq (c_id cust) None 0 now;
          i2 = addCommunication i1
                 \<lparr>cd_type = ''other'', cd_subject = Some ''Converted to Customer'',
                  cd_content = ''Inquiry converted to '' @ (if isNew then ''new'' else ''existing'')
                     @ '' customer record. Customer ID: '' @ c_id cust,
                  cd_direction = ''outbound'', cd_outcome = Some ''Converted to customer'',
                  cd_nextAction = Some ''Follow up on customer requirements''\<rparr> userId now
      in (Inquiry_save db' i2,
          Inr \<lparr>r_customer = cust, r_inquiry = i2, r_isNewCustomer = isNew\<rparr>))"

definition convert_to_customer ::
  "db \<Rightarrow> objectId \<Rightarrow> convert_body \<Rightarrow> objectId \<Rightarrow> date \<Rightarrow> objectId \<Rightarrow> db \<times> (error + convert_response)" where
  "convert_to_customer db inquiryId body userId now newId =
     (if \<not> convert_validation body then (db, Inl Validation_errors)
      else
        let status = (case customerStatus body of None \<Rightarrow> ''prospect'' | Some s \<Rightarrow> s) in
        case Inquiry_findById db inquiryId of
          None \<Rightarrow> (db, Inl Inquiry_not_found)
        | Some inq \<Rightarrow>
            if i_status inq = ''converted'' \<and> truthy_ref (cv_customer (convertedTo inq))
            then (db, Inl Already_converted)
            else
              (case Customer_findOne_email db (i_email inq) of
                 Some existing \<Rightarrow>
                   (let c1 = merge_inquiry existing inq;
                        c2 = (if truthy_str (body_assignTo body) then c1\<lparr>c_assignedTo := body_assignTo body\<rparr> else c1);
                        c3 = c2\<lparr>c_status := status, c_lastContact := Some now\<rparr>;
                        c4 = customer_addNote c3
                               (''Converted from inquiry '' @ inquiryNumber inq @
                                  (if truthy_str (additionalNotes body)
                                   then '': '' @ the (additionalNotes body) else []))
                               userId now
                    in if \<not> customer_valid c4 then (db, Inl Server_error)
                       else stamp_inquiry (Customer_save db c4) inq c4 False userId now)
               | None \<Rightarrow>
                   (let c0 = new_customer inq body status userId now newId
                    in if \<not> customer_valid c0 then (db, Inl Server_error)
                       else
                         let c1 = customer_addNote c0
                                    (''Customer created from inquiry '' @ inquiryNumber inq @
                                       ''. Original requirements: '' @
                                       or_str (requirements_description inq) ''No specific requirements noted'' @
                                       (if truthy_str (additionalNotes body)
                                        then ''. Additional notes: '' @ the (additionalNotes body) else []))
                                    userId now
                         in stamp_inquiry (Customer_insert db c1) inq c1 True userId now)))"

section \<open>Deleting an inquiry, updating stock, deleting an order\<close>

text \<open>\<open>DELETE /api/inquiries/:id\<close> (routes/inquiries.js).\<close>

definition delete_inquiry :: "db \<Rightarrow> objectId \<Rightarrow> db \<times> (error + unit)" where
  "delete_inquiry db inquiryId =
     (case Inquiry_findById db inquiryId of
        None \<Rightarrow> (db, Inl Inquiry_not_found)
      | Some inq \<Rightarrow>
          if i_status inq = ''converted'' \<and> truthy_ref (cv_customer (convertedTo inq))
          then (db, Inl Cannot_delete_converted)
          else (Inquiry_findByIdAndDelete db inquiryId, Inr ()))"

text \<open>
  \<open>PUT /api/products/:id/stock\<close> (routes/products.js), after \<open>canAccessResource\<close> has let
  the request through: \<open>quantity\<close> and \<open>operation\<close> are validated and handed to
  \<open>updateStock\<close> as they came in.
\<close>

definition put_product_stock ::
  "db \<Rightarrow> objectId \<Rightarrow> js_value \<Rightarrow> string \<Rightarrow> db \<times> (error + product)" where
  "put_product_stock db productId quantity' operation =
     (if \<not> (isInt_min1 quantity' \<and> operation \<in> set [''increase'', ''decrease''])
      then (db, Inl Validation_errors)
      else
        (case Product_findById (products db) productId of
           None \<Rightarrow> (db, Inl Product_not_found)
         | Some p \<Rightarrow>
             (case updateStock p quantity' operation of
                None \<Rightarrow> (db, Inl Server_error)
              | Some p' \<Rightarrow> (db\<lparr>products := Product_save (products db) p'\<rparr>, Inr p'))))"



section \<open>Creating an order\<close>










section \<open>Sample documents\<close>

text \<open>
  The documents of the scenarios: an inquiry of January 2024 from Acme School, a staff
  user, a product with 40 in stock and a draft order of 10 of it; and a shop with one
  customer and 50 of one product, for which an order of two lines of 30 is placed.
\<close>

definition jan2024 :: "nat \<Rightarrow> date" where
  "jan2024 ms = \<lparr>monthCount = 2024 * 12 + 0, offset = ms\<rparr>"

definition acme_inquiry :: inquiry where
  "acme_inquiry =
     \<lparr>i_id = ''inq1'', inquiryNumber = ''INQ2024010001'', i_status = ''new'',
      customerName = ''Acme School'', i_email = ''a@acme.edu'', i_phone = Some ''98450'',
      i_company = Some ''Acme Trust'',
      i_address = Some \<lparr>street = None, city = Some ''Pune'', state = None, pincode = None,
                         country = Some ''India''\<rparr>,
      i_businessType = Some ''school'', i_industry = None, i_employeeCount = Some 40,
      uniformType = ''school'', requirements_description = Some ''summer uniforms'',
      i_source = Some ''website'', communications = [], i_lastContact = None,
      nextFollowUp = None, followUpNotes = None, i_assignedTo = None, assignedDate = None,
      convertedTo = \<lparr>cv_order = None, cv_customer = None, conversionDate = None,
                      conversionValue = None\<rparr>,
      i_notes = [], inquiryDate = jan2024 500, firstResponseTime = None,
      resolutionTime = None\<rparr>"

definition second_inquiry :: inquiry where
  "second_inquiry = acme_inquiry\<lparr>i_id := ''inq2'', inquiryNumber := ''INQ2024010002'',
     i_email := ''b@example.org'', inquiryDate := jan2024 700\<rparr>"

definition third_inquiry :: inquiry where
  "third_inquiry = acme_inquiry\<lparr>i_id := ''inq3'', inquiryNumber := ''INQ2024010003'',
     i_email := ''c@example.org'', inquiryDate := jan2024 1000\<rparr>"

definition converted_inquiry :: inquiry where
  "converted_inquiry = convertToCustomer acme_inquiry ''cust1'' None 0 (jan2024 900)"

definition reopened_inquiry :: inquiry where
  "reopened_inquiry = converted_inquiry\<lparr>i_status := ''contacted''\<rparr>"

definition status_only_inquiry :: inquiry where
  "status_only_inquiry = updateStatus acme_inquiry ''converted'' ''user7'' [] (jan2024 900)"

definition phone_inquiry :: inquiry where
  "phone_inquiry = acme_inquiry\<lparr>i_source := Some ''phone''\<rparr>"

definition acme_customer :: customer where
  "acme_customer =
     \<lparr>c_id = ''cust1'', c_name = ''Acme Group'', c_email = ''a@acme.edu'', c_phone = None,
      c_company = Some ''Acme Group Ltd'',
      c_address = Some \<lparr>street = Some ''12 MG Road'', city = None, state = None,
                         pincode = None, country = Some ''India''\<rparr>,
      c_businessType = Some ''corporate'', c_industry = None, c_employeeCount = Some 900,
      c_status = ''active'', c_source = ''referral'', c_notes = [], c_tags = [],
      c_assignedTo = Some ''user7'', c_lastContact = None, c_totalOrders = 0,
      c_totalRevenue = 0, c_lastOrderDate = None\<rparr>"

definition plain_body :: convert_body where
  "plain_body = \<lparr>additionalNotes = None, body_assignTo = None, customerStatus = None\<rparr>"

definition shirt :: product where
  "shirt = \<lparr>p_id = ''p1'', p_name = ''Shirt'', p_code = ''SH1'', stockQuantity = 40,
            reorderLevel = 10\<rparr>"

definition draft_order :: order where
  "draft_order =
     \<lparr>o_id = ''o1'', orderNumber = ''UP2024010001'', o_status = ''draft'', o_customer = ''cust1'',
      items = Some [\<lparr>product_ref = ''p1'', productName = ''Shirt'', productCode = ''SH1'',
                     quantity = 10, unitPrice = 200, totalPrice = 2000\<rparr>],
      subtotal = 2000, tax = None, discount = None, shippingCost = None, totalAmount = 2000,
      paymentStatus = ''pending'', paidAmount = 0\<rparr>"





definition sample_db :: db where
  "sample_db = \<lparr>customers = [], inquiries = [acme_inquiry], products = [shirt],
                orders = [draft_order]\<rparr>"

section \<open>Theorems: decimal strings\<close>

lemma digit_cases: "d < 10 \<Longrightarrow> d \<in> set [0, 1, 2, 3, 4, 5, 6, 7, 8, 9::nat]"
  by (simp only: set_simps insert_iff empty_iff) arith

lemma of_char_digit: "n < 10 \<Longrightarrow> of_char (digitChar n) - 48 = n"
  using digit_cases [of n] by (auto simp add: digitChar_def)

lemma digitChar_digit: "n < 10 \<Longrightarrow> digitChar n \<in> set ''0123456789''"
  using digit_cases [of n] by (auto simp add: digitChar_def)

lemma replicate_numeral_eval: "replicate (numeral k) x = x # replicate (pred_numeral k) x"
  by (simp add: numeral_eq_Suc)

lemma Number_str_append:
  "Number_str (s @ [c]) = 10 * Number_str s + (of_char c - 48)"
  by (simp add: Number_str_def)

lemma Number_str_String_nat: "Number_str (String_nat n) = n"
proof (induction n rule: String_nat.induct)
  case (1 n)
  show ?case
  proof (cases "n < 10")
    case True
    then show ?thesis
      by (subst String_nat.simps) (simp add: Number_str_def of_char_digit)
  next
    case False
    have "Number_str (String_nat n) = Number_str (String_nat (n div 10) @ [digitChar (n mod 10)])"
      using False by (subst String_nat.simps) simp
    also have "\<dots> = 10 * (n div 10) + n mod 10"
      using 1 False by (simp add: Number_str_append of_char_digit)
    finally show ?thesis by simp
  qed
qed

lemma digits_String_nat: "list_all (\<lambda>c. c \<in> set ''0123456789'') (String_nat n)"
proof (induction n rule: String_nat.induct)
  case (1 n)
  show ?case
  proof (cases "n < 10")
    case True
    then show ?thesis
      using digitChar_digit [of n] by (subst String_nat.simps) simp
  next
    case False
    then show ?thesis
      using 1 digitChar_digit [of "n mod 10"] by (subst String_nat.simps) simp
  qed
qed

lemma digits_padStart:
  "list_all (\<lambda>c. c \<in> set ''0123456789'') (padStart k CHR ''0'' (String_nat n))"
proof -
  have "list_all (\<lambda>c. c \<in> set ''0123456789'') (replicate j CHR ''0'')" for j
    by (induction j) simp_all
  with digits_String_nat [of n] show ?thesis
    by (simp only: padStart_def list_all_append)
qed

lemma Number_str_zeros: "Number_str (replicate k CHR ''0'' @ s) = Number_str s"
proof -
  have "foldl (\<lambda>a c. 10 * a + (of_char c - 48)) 0 (replicate k CHR ''0'') = (0::nat)"
    by (induction k) simp_all
  then show ?thesis by (simp add: Number_str_def)
qed

lemma Number_str_padStart: "Number_str (padStart k CHR ''0'' (String_nat n)) = n"
  by (simp add: padStart_def Number_str_zeros Number_str_String_nat)

lemma length_String_nat_1: "n < 10 \<Longrightarrow> length (String_nat n) = 1"
  by (subst String_nat.simps) simp

lemma length_String_nat_Suc: "10 \<le> n \<Longrightarrow> length (String_nat n) = Suc (length (String_nat (n div 10)))"
  by (subst String_nat.simps) simp

lemma length_String_nat_2: "10 \<le> n \<Longrightarrow> n < 100 \<Longrightarrow> length (String_nat n) = 2"
  by (simp add: length_String_nat_Suc length_String_nat_1)

lemma length_String_nat_3: "100 \<le> n \<Longrightarrow> n < 1000 \<Longrightarrow> length (String_nat n) = 3"
proof -
  assume a: "100 \<le> n" "n < 1000"
  then have "10 \<le> n div 10" "n div 10 < 100" by presburger+
  then have "length (String_nat (n div 10)) = 2" by (rule length_String_nat_2)
  with a show ?thesis by (simp add: length_String_nat_Suc [of n])
qed

lemma length_String_nat_4: "1000 \<le> n \<Longrightarrow> n < 10000 \<Longrightarrow> length (String_nat n) = 4"
proof -
  assume a: "1000 \<le> n" "n < 10000"
  then have "100 \<le> n div 10" "n div 10 < 1000" by presburger+
  then have "length (String_nat (n div 10)) = 3" by (rule length_String_nat_3)
  with a show ?thesis by (simp add: length_String_nat_Suc [of n])
qed

lemma length_String_nat_le4: "n < 10000 \<Longrightarrow> length (String_nat n) \<le> 4"
proof -
  assume "n < 10000"
  then consider "n < 10" | "10 \<le> n \<and> n < 100" | "100 \<le> n \<and> n < 1000" | "1000 \<le> n \<and> n < 10000"
    by linarith
  then show ?thesis
    by cases (simp_all add: length_String_nat_1 length_String_nat_2 length_String_nat_3 length_String_nat_4)
qed

lemma length_padStart: "length (padStart k c s) = max k (length s)"
  by (simp add: padStart_def)

lemma length_String_nat_pos: "0 < length (String_nat n)"
  by (subst String_nat.simps) simp

section \<open>Theorems: stock\<close>

lemma updateStock_number:
  "updateStock p (JNum q) ''decrease'' = Some (p\<lparr>stockQuantity := max 0 (stockQuantity p - q)\<rparr>)"
  "updateStock p (JNum q) ''increase'' = Some (p\<lparr>stockQuantity := stockQuantity p + q\<rparr>)"
  by (simp_all add: updateStock_def ToNumber_def js_plus_def)

text \<open>A decrease takes a numeric string for its number.\<close>

lemma updateStock_decrease_coerces:
  "ToNumber (JStr s) = Some n \<Longrightarrow>
   updateStock p (JStr s) ''decrease'' = updateStock p (JNum n) ''decrease''"
  by (simp add: updateStock_def ToNumber_def)

lemma String_nat_hd:
  "\<exists>c cs. String_nat n = c # cs \<and> c \<in> set ''0123456789''"
proof -
  from length_String_nat_pos [of n] obtain c cs where e: "String_nat n = c # cs"
    by (cases "String_nat n") auto
  with digits_String_nat [of n] have "c \<in> set ''0123456789''" by simp
  with e show ?thesis by blast
qed

lemma Number_of_string_digit_first:
  assumes "c \<in> set ''0123456789''" and "Number_of_string (c # cs) = Some v"
  shows "0 \<le> v"
proof -
  from assms(1) have "c \<noteq> CHR ''+''" and "c \<noteq> CHR ''-''" by auto
  with assms(2) show ?thesis
    by (auto simp add: Number_of_string_def split: if_splits)
qed

lemma concatenation_nonneg:
  assumes "0 \<le> a" and "Number_of_string (String_int a @ s) = Some v"
  shows "0 \<le> v"
proof -
  from String_nat_hd [of "nat a"] obtain c cs where
    e: "String_nat (nat a) = c # cs" and d: "c \<in> set ''0123456789''" by blast
  from assms e have "Number_of_string (c # (cs @ s)) = Some v"
    by (simp add: String_int_def)
  with d show ?thesis by (rule Number_of_string_digit_first)
qed

text \<open>
  The floor: whatever is passed as quantity, a string or a number that is not negative, a
  stock that is not negative stays so.
\<close>

lemma updateStock_nonneg:
  assumes "0 \<le> stockQuantity p" and "\<forall>n. q = JNum n \<longrightarrow> 0 \<le> n"
    and "updateStock p q operation = Some p'"
  shows "0 \<le> stockQuantity p'"
proof (cases q)
  case (JNum n)
  with assms show ?thesis
    by (auto simp add: updateStock_def ToNumber_def js_plus_def split: if_splits)
next
  case (JStr s)
  with assms(1,3) concatenation_nonneg [of "stockQuantity p" s] show ?thesis
    by (auto simp add: updateStock_def ToNumber_def js_plus_def split: if_splits option.splits)
qed

lemma updateStock_calls_nonneg:
  "0 \<le> stockQuantity p \<Longrightarrow> (\<forall>c \<in> set cs. \<forall>n. fst c = JNum n \<longrightarrow> 0 \<le> n) \<Longrightarrow>
   0 \<le> stockQuantity (updateStock_calls p cs)"
proof (induction cs arbitrary: p)
  case Nil
  then show ?case by simp
next
  case (Cons c cs)
  obtain q operation where c: "c = (q, operation)" by (cases c)
  from Cons.prems(2) have n: "\<forall>n. q = JNum n \<longrightarrow> 0 \<le> n" by (simp add: c)
  have "0 \<le> stockQuantity (case updateStock p q operation of None \<Rightarrow> p | Some p' \<Rightarrow> p')"
  proof (cases "updateStock p q operation")
    case None
    with Cons.prems(1) show ?thesis by simp
  next
    case (Some p')
    with updateStock_nonneg [OF Cons.prems(1) n Some] show ?thesis by simp
  qed
  from Cons.IH [OF this] Cons.prems(2) show ?case by (simp add: c)
qed

text \<open>
  For a quantity that is a number, \<open>updateStock\<close> does what the claim says: a decrease
  sets the stock to \<open>max 0 (stock - q)\<close>, an increase adds \<open>q\<close>.
\<close>

lemma updateStock_number_floor:
  "map_option stockQuantity (updateStock p (JNum q) ''decrease'') = Some (max 0 (stockQuantity p - q)) \<and>
   map_option stockQuantity (updateStock p (JNum q) ''increase'') = Some (stockQuantity p + q)"
  by (simp add: updateStock_number)

lemmas stock_eval =
  put_product_stock_def updateStock_def ToNumber_def js_plus_def isInt_min1_def
  Number_of_string_def isDigits_def Number_str_def String_int_def String_nat.simps digitChar_def
  Product_findById_def Product_save_def sample_db_def shirt_def

text \<open>
  Claim C5 at a failing input: \<open>PUT /api/products/p1/stock\<close> with the body
  \<open>{"quantity": "5", "operation": "increase"}\<close> on a product with 40 in stock. The string
  passes \<open>isInt({ min: 1 })\<close> and reaches \<open>updateStock\<close> as a string, where
  \<open>this.stockQuantity += quantity\<close> concatenates: the stock becomes 405, not 45. The same
  quantity as a JSON number gives 45, and as a string under \<open>decrease\<close> it gives 35.
\<close>

theorem put_product_stock_concatenates:
  "isInt_min1 (JStr ''5'') \<and> stockQuantity shirt = 40 \<and>
   put_product_stock sample_db ''p1'' (JStr ''5'') ''increase'' =
     (sample_db\<lparr>products := [shirt\<lparr>stockQuantity := 405\<rparr>]\<rparr>, Inr (shirt\<lparr>stockQuantity := 405\<rparr>)) \<and>
   put_product_stock sample_db ''p1'' (JNum 5) ''increase'' =
     (sample_db\<lparr>products := [shirt\<lparr>stockQuantity := 45\<rparr>]\<rparr>, Inr (shirt\<lparr>stockQuantity := 45\<rparr>)) \<and>
   put_product_stock sample_db ''p1'' (JStr ''5'') ''decrease'' =
     (sample_db\<lparr>products := [shirt\<lparr>stockQuantity := 35\<rparr>]\<rparr>, Inr (shirt\<lparr>stockQuantity := 35\<rparr>))"
  by (simp add: stock_eval)

text \<open>A signed string passes the validation too; its concatenation is not a number and the request fails.\<close>

lemma put_product_stock_signed:
  "isInt_min1 (JStr ''+5'') \<and>
   put_product_stock sample_db ''p1'' (JStr ''+5'') ''increase'' = (sample_db, Inl Server_error)"
  by (simp add: stock_eval)


section \<open>Theorems: order totals\<close>

lemma foldl_totalPrice:
  "foldl (\<lambda>sum item. sum + totalPrice item) a its = a + sum_list (map totalPrice its)"
  by (induction its arbitrary: a) simp_all

lemma calculateTotals_subtotal:
  "subtotal (calculateTotals ord) = sum_list (map totalPrice (items_of ord))"
  by (simp add: calculateTotals_def items_of_def foldl_totalPrice Let_def split: option.split)

lemma calculateTotals_totalAmount:
  "totalAmount (calculateTotals ord) =
     subtotal (calculateTotals ord) + or0 (tax ord) + or0 (shippingCost ord) - or0 (discount ord)"
  by (simp add: calculateTotals_def Let_def split: option.split)

lemma calculateTotals_frame:
  "items (calculateTotals ord) = items ord \<and> tax (calculateTotals ord) = tax ord \<and>
   shippingCost (calculateTotals ord) = shippingCost ord \<and>
   discount (calculateTotals ord) = discount ord"
  by (simp add: calculateTotals_def Let_def split: option.split)

lemma addItem_items:
  "items_of (addItem ord d) = items_of ord @ [item_of_data d]"
  by (simp add: addItem_def items_of_def calculateTotals_frame Let_def split: option.split)

lemma addItem_unfold:
  "addItem ord d = calculateTotals (ord\<lparr>items := Some (items_of ord @ [item_of_data d])\<rparr>)"
  by (simp add: addItem_def items_of_def Let_def split: option.split)

text \<open>
  Claim C6. After \<open>calculateTotals\<close>, \<open>subtotal\<close> is the sum of the line items'
  \<open>totalPrice\<close> and \<open>totalAmount\<close> is that sum plus \<open>tax\<close> plus \<open>shippingCost\<close> minus
  \<open>discount\<close>, each of the three taken as it is stored and as 0 where it is missing;
  the items and the three amounts themselves are left alone. \<open>addItem\<close> appends one item
  whose \<open>totalPrice\<close> is \<open>quantity * unitPrice\<close> and then recomputes: the subtotal grows
  by that product and the total is again subtotal plus tax plus shipping cost minus discount.
\<close>

theorem order_totals:
  "subtotal (calculateTotals ord) = sum_list (map totalPrice (items_of ord)) \<and>
   totalAmount (calculateTotals ord) =
     sum_list (map totalPrice (items_of ord))
       + (case tax ord of None \<Rightarrow> 0 | Some t \<Rightarrow> t)
       + (case shippingCost ord of None \<Rightarrow> 0 | Some c \<Rightarrow> c)
       - (case discount ord of None \<Rightarrow> 0 | Some d \<Rightarrow> d) \<and>
   items (calculateTotals ord) = items ord \<and> tax (calculateTotals ord) = tax ord \<and>
   shippingCost (calculateTotals ord) = shippingCost ord \<and>
   discount (calculateTotals ord) = discount ord \<and>
   items (addItem ord itemData) = Some (items_of ord @ [item_of_data itemData]) \<and>
   product_ref (item_of_data itemData) = d_product itemData \<and>
   quantity (item_of_data itemData) = d_quantity itemData \<and>
   unitPrice (item_of_data itemData) = d_unitPrice itemData \<and>
   totalPrice (item_of_data itemData) = of_int (d_quantity itemData) * d_unitPrice itemData \<and>
   subtotal (addItem ord itemData) =
     sum_list (map totalPrice (items_of ord)) + of_int (d_quantity itemData) * d_unitPrice itemData \<and>
   totalAmount (addItem ord itemData) =
     sum_list (map totalPrice (items_of ord)) + of_int (d_quantity itemData) * d_unitPrice itemData
       + (case tax ord of None \<Rightarrow> 0 | Some t \<Rightarrow> t)
       + (case shippingCost ord of None \<Rightarrow> 0 | Some c \<Rightarrow> c)
       - (case discount ord of None \<Rightarrow> 0 | Some d \<Rightarrow> d) \<and>
   tax (addItem ord itemData) = tax ord \<and> shippingCost (addItem ord itemData) = shippingCost ord \<and>
   discount (addItem ord itemData) = discount ord"
proof -
  let ?o2 = "ord\<lparr>items := Some (items_of ord @ [item_of_data itemData])\<rparr>"
  have z: "or0 x = (case x of None \<Rightarrow> 0 | Some v \<Rightarrow> v)" for x
    by (simp add: or0_def split: option.split)
  have a: "addItem ord itemData = calculateTotals ?o2" by (rule addItem_unfold)
  have p: "totalPrice (item_of_data itemData) = of_int (d_quantity itemData) * d_unitPrice itemData"
    by (simp add: item_of_data_def)
  have p2: "product_ref (item_of_data itemData) = d_product itemData \<and>
     quantity (item_of_data itemData) = d_quantity itemData \<and>
     unitPrice (item_of_data itemData) = d_unitPrice itemData"
    by (simp add: item_of_data_def)
  have i2: "items_of ?o2 = items_of ord @ [item_of_data itemData]"
    by (simp add: items_of_def)
  have s1: "subtotal (calculateTotals ord) = sum_list (map totalPrice (items_of ord))"
    by (rule calculateTotals_subtotal)
  have t1: "totalAmount (calculateTotals ord) =
     sum_list (map totalPrice (items_of ord))
       + (case tax ord of None \<Rightarrow> 0 | Some t \<Rightarrow> t)
       + (case shippingCost ord of None \<Rightarrow> 0 | Some c \<Rightarrow> c)
       - (case discount ord of None \<Rightarrow> 0 | Some d \<Rightarrow> d)"
    by (simp only: calculateTotals_totalAmount s1 z)
  have f1: "items (calculateTotals ord) = items ord \<and> tax (calculateTotals ord) = tax ord \<and>
     shippingCost (calculateTotals ord) = shippingCost ord \<and>
     discount (calculateTotals ord) = discount ord"
    by (rule calculateTotals_frame)
  have i3: "items (addItem ord itemData) = Some (items_of ord @ [item_of_data itemData])"
    unfolding a by (simp add: calculateTotals_frame)
  have s2: "subtotal (addItem ord itemData) =
     sum_list (map totalPrice (items_of ord)) + of_int (d_quantity itemData) * d_unitPrice itemData"
    unfolding a by (simp add: calculateTotals_subtotal i2 p)
  have f: "tax (addItem ord itemData) = tax ord \<and> shippingCost (addItem ord itemData) = shippingCost ord \<and>
     discount (addItem ord itemData) = discount ord"
    unfolding a by (simp add: calculateTotals_frame)
  have "totalAmount (calculateTotals ?o2) =
     subtotal (calculateTotals ?o2) + or0 (tax ?o2) + or0 (shippingCost ?o2) - or0 (discount ?o2)"
    by (rule calculateTotals_totalAmount)
  then have t2: "totalAmount (addItem ord itemData) =
     sum_list (map totalPrice (items_of ord)) + of_int (d_quantity itemData) * d_unitPrice itemData
       + (case tax ord of None \<Rightarrow> 0 | Some t \<Rightarrow> t)
       + (case shippingCost ord of None \<Rightarrow> 0 | Some c \<Rightarrow> c)
       - (case discount ord of None \<Rightarrow> 0 | Some d \<Rightarrow> d)"
    using s2 unfolding a by (simp add: z)
  from s1 t1 f1 i3 p p2 s2 t2 f show ?thesis by blast
qed

text \<open>
  On the draft order of 10 shirts at 200, with a tax of 360, a shipping cost of 100 and a
  discount of 60: the total is 2400, and after adding 5 at 120 it is 3000.
\<close>

theorem order_totals_witness:
  "totalAmount (calculateTotals
       (draft_order\<lparr>tax := Some 360, shippingCost := Some 100, discount := Some 60\<rparr>)) = 2400 \<and>
   subtotal (addItem (draft_order\<lparr>tax := Some 360, shippingCost := Some 100, discount := Some 60\<rparr>)
       \<lparr>d_product = ''p2'', d_productName = ''Cap'', d_productCode = ''CP1'', d_quantity = 5,
        d_unitPrice = 120\<rparr>) = 2600 \<and>
   totalAmount (addItem (draft_order\<lparr>tax := Some 360, shippingCost := Some 100, discount := Some 60\<rparr>)
       \<lparr>d_product = ''p2'', d_productName = ''Cap'', d_productCode = ''CP1'', d_quantity = 5,
        d_unitPrice = 120\<rparr>) = 3000 \<and>
   totalAmount (calculateTotals (draft_order\<lparr>items := None\<rparr>)) = 0"
  using order_totals [of "draft_order\<lparr>tax := Some 360, shippingCost := Some 100, discount := Some 60\<rparr>"
      "\<lparr>d_product = ''p2'', d_productName = ''Cap'', d_productCode = ''CP1'', d_quantity = 5,
        d_unitPrice = 120\<rparr>"]
    order_totals [of "draft_order\<lparr>items := None\<rparr>"]
  by (simp add: items_of_def draft_order_def)

section \<open>Theorems: payment status\<close>

lemma updatePayment_paidAmount:
  "paidAmount (updatePayment ord amount) = paidAmount ord + amount \<and>
   totalAmount (updatePayment ord amount) = totalAmount ord"
  by (simp add: updatePayment_def Let_def)

text \<open>
  Where the new \<open>paidAmount\<close> is neither positive nor at least \<open>totalAmount\<close>, the method
  assigns nothing: the status stays what it was.
\<close>

lemma updatePayment_keeps_status:
  "paidAmount ord + amount < totalAmount ord \<Longrightarrow> paidAmount ord + amount \<le> 0 \<Longrightarrow>
   paymentStatus (updatePayment ord amount) = paymentStatus ord"
  by (simp add: updatePayment_def Let_def)



section \<open>Theorems: inquiry numbers\<close>

lemma length_month: "length (padStart 2 CHR ''0'' (String_nat (getMonth now + 1))) = 2"
proof -
  have "getMonth now + 1 < 100" by (simp add: getMonth_def)
  then consider "getMonth now + 1 < 10" | "10 \<le> getMonth now + 1 \<and> getMonth now + 1 < 100"
    by linarith
  then show ?thesis
    by cases (simp_all add: length_padStart length_String_nat_1 length_String_nat_2)
qed

lemma in_month_of_iff:
  "in_month_of now inq \<longleftrightarrow> monthCount (inquiryDate inq) = monthCount now"
proof -
  have "getFullYear now * 12 + getMonth now = monthCount now"
    by (simp add: getFullYear_def getMonth_def)
  then show ?thesis
    by (auto simp add: in_month_of_def date_gte_def date_lt_def Date_first_def)
qed

lemma in_month_of_cong:
  "monthCount now' = monthCount now \<Longrightarrow> in_month_of now' = in_month_of now"
  by (rule ext) (simp add: in_month_of_iff)

lemma countDocuments_append:
  "countDocuments q (docs @ news) = countDocuments q docs + countDocuments q news"
  by (simp add: countDocuments_def)

lemma countDocuments_pos: "list_ex q news \<Longrightarrow> 0 < countDocuments q news"
  by (induction news) (auto simp add: countDocuments_def)

text \<open>
  Claim C8, as amended. The generated number is \<open>INQ\<close>, the decimal year \<open>y\<close> (four
  digits in the years 1000 to 9999), the month \<open>m\<close> as two digits between 01 and 12, and
  the suffix \<open>s\<close>: one more than the number of stored inquiries whose \<open>inquiryDate\<close> lies
  in [first of that month, first of the next month), padded with zeros to at least four
  digits (exactly four up to 9999). An inquiry lies in that range exactly when its date has
  the year and month of \<open>now\<close>. A later generation in the same month gives a strictly
  greater suffix when, in between, inquiries were only added to the collection and at least
  one of them is dated in that month, as the submission route does after each generation.
\<close>

theorem generateInquiryNumber_format:
  "\<exists>y m s. generateInquiryNumber docs now = ''INQ'' @ y @ m @ s \<and>
     list_all (\<lambda>c. c \<in> set ''0123456789'') (y @ m @ s) \<and>
     Number_str y = getFullYear now \<and>
     (1000 \<le> getFullYear now \<and> getFullYear now \<le> 9999 \<longrightarrow> length y = 4) \<and>
     length m = 2 \<and> Number_str m = getMonth now + 1 \<and> Number_str m \<le> 12 \<and>
     s = padStart 4 CHR ''0'' (String_nat (countDocuments (in_month_of now) docs + 1)) \<and>
     4 \<le> length s \<and> Number_str s = countDocuments (in_month_of now) docs + 1 \<and>
     (countDocuments (in_month_of now) docs + 1 \<le> 9999 \<longrightarrow> length s = 4) \<and>
     (\<forall>inq. in_month_of now inq \<longleftrightarrow>
        getFullYear (inquiryDate inq) = getFullYear now \<and> getMonth (inquiryDate inq) = getMonth now) \<and>
     (\<forall>now' news. monthCount now' = monthCount now \<and> list_ex (in_month_of now) news \<longrightarrow>
        (\<exists>s'. generateInquiryNumber (docs @ news) now' = ''INQ'' @ y @ m @ s' \<and>
              Number_str s < Number_str s'))"
proof -
  let ?y = "String_nat (getFullYear now)"
  let ?m = "padStart 2 CHR ''0'' (String_nat (getMonth now + 1))"
  let ?n = "countDocuments (in_month_of now) docs"
  let ?s = "padStart 4 CHR ''0'' (String_nat (?n + 1))"
  have g: "generateInquiryNumber docs now = ''INQ'' @ ?y @ ?m @ ?s"
    by (simp add: generateInquiryNumber_def Let_def)
  have d: "list_all (\<lambda>c. c \<in> set ''0123456789'') (?y @ ?m @ ?s)"
    using digits_String_nat [of "getFullYear now"] digits_padStart [of 2 "getMonth now + 1"]
      digits_padStart [of 4 "?n + 1"]
    by (simp only: list_all_append)
  have y: "Number_str ?y = getFullYear now" by (rule Number_str_String_nat)
  have y4: "1000 \<le> getFullYear now \<and> getFullYear now \<le> 9999 \<longrightarrow> length ?y = 4"
    by (simp add: length_String_nat_4)
  have m2: "length ?m = 2" by (rule length_month)
  have m: "Number_str ?m = getMonth now + 1" by (rule Number_str_padStart)
  have "getMonth now + 1 \<le> 12" by (simp add: getMonth_def Suc_leI)
  then have m12: "Number_str ?m \<le> 12" by (simp only: m)
  have s4: "4 \<le> length ?s" by (simp add: length_padStart)
  have s: "Number_str ?s = ?n + 1" by (rule Number_str_padStart)
  have s44: "?n + 1 \<le> 9999 \<longrightarrow> length ?s = 4"
    using length_String_nat_le4 [of "?n + 1"] by (simp add: length_padStart)
  have q: "in_month_of now inq \<longleftrightarrow>
        getFullYear (inquiryDate inq) = getFullYear now \<and> getMonth (inquiryDate inq) = getMonth now" for inq
  proof -
    have "monthCount a = monthCount b \<longleftrightarrow> monthCount a div 12 = monthCount b div 12 \<and>
        monthCount a mod 12 = monthCount b mod 12" for a b :: date
      by (metis div_mult_mod_eq)
    then show ?thesis by (simp add: in_month_of_iff getFullYear_def getMonth_def)
  qed
  have nx: "\<exists>s'. generateInquiryNumber (docs @ news) now' = ''INQ'' @ ?y @ ?m @ s' \<and>
              Number_str ?s < Number_str s'"
    if a: "monthCount now' = monthCount now" and b: "list_ex (in_month_of now) news" for now' news
  proof -
    let ?s' = "padStart 4 CHR ''0'' (String_nat (countDocuments (in_month_of now) (docs @ news) + 1))"
    have "generateInquiryNumber (docs @ news) now' = ''INQ'' @ ?y @ ?m @ ?s'"
      using a by (simp add: generateInquiryNumber_def Let_def in_month_of_cong [OF a]
          getFullYear_def getMonth_def)
    moreover have "Number_str ?s < Number_str ?s'"
      using countDocuments_pos [OF b]
      by (simp add: Number_str_padStart countDocuments_append)
    ultimately show ?thesis by blast
  qed
  from g d y y4 m2 m m12 s4 s s44 q nx show ?thesis by blast
qed


lemmas number_eval =
  generateInquiryNumber_def countDocuments_def in_month_of_iff getFullYear_def getMonth_def
  jan2024_def padStart_def String_nat.simps digitChar_def replicate_numeral_eval

theorem generateInquiryNumber_format_witness:
  "generateInquiryNumber [acme_inquiry] (jan2024 1000) = ''INQ2024010002'' \<and>
   list_ex (in_month_of (jan2024 1000)) [second_inquiry] \<and>
   (\<exists>y m s s'. generateInquiryNumber [acme_inquiry] (jan2024 1000) = ''INQ'' @ y @ m @ s \<and>
      length y = 4 \<and> length m = 2 \<and> length s = 4 \<and> Number_str s = 2 \<and>
      generateInquiryNumber ([acme_inquiry] @ [second_inquiry]) (jan2024 5000) = ''INQ'' @ y @ m @ s' \<and>
      Number_str s < Number_str s')"
proof -
  have e: "generateInquiryNumber [acme_inquiry] (jan2024 1000) = ''INQ2024010002''"
    by (simp add: number_eval acme_inquiry_def)
  have h1: "1000 \<le> getFullYear (jan2024 1000) \<and> getFullYear (jan2024 1000) \<le> 9999"
    by (simp add: getFullYear_def jan2024_def)
  have h2: "monthCount (jan2024 5000) = monthCount (jan2024 1000)"
    by (simp add: jan2024_def)
  have h3: "list_ex (in_month_of (jan2024 1000)) [second_inquiry]"
    by (simp add: in_month_of_iff second_inquiry_def jan2024_def)
  have h4: "countDocuments (in_month_of (jan2024 1000)) [acme_inquiry] + 1 = 2"
    by (simp add: countDocuments_def in_month_of_iff acme_inquiry_def jan2024_def)
  from generateInquiryNumber_format [of "[acme_inquiry]" "jan2024 1000"]
  obtain y m s where
    g: "generateInquiryNumber [acme_inquiry] (jan2024 1000) = ''INQ'' @ y @ m @ s" and
    y: "1000 \<le> getFullYear (jan2024 1000) \<and> getFullYear (jan2024 1000) \<le> 9999 \<longrightarrow> length y = 4" and
    m: "length m = 2" and
    s: "Number_str s = countDocuments (in_month_of (jan2024 1000)) [acme_inquiry] + 1" and
    s4: "countDocuments (in_month_of (jan2024 1000)) [acme_inquiry] + 1 \<le> 9999 \<longrightarrow> length s = 4" and
    nx: "\<forall>now' news. monthCount now' = monthCount (jan2024 1000) \<and>
           list_ex (in_month_of (jan2024 1000)) news \<longrightarrow>
        (\<exists>s'. generateInquiryNumber ([acme_inquiry] @ news) now' = ''INQ'' @ y @ m @ s' \<and>
              Number_str s < Number_str s')"
    by blast
  from nx h2 h3 obtain s' where
    "generateInquiryNumber ([acme_inquiry] @ [second_inquiry]) (jan2024 5000) = ''INQ'' @ y @ m @ s'"
    "Number_str s < Number_str s'"
    by blast
  moreover from y h1 have "length y = 4" by blast
  moreover from s4 h4 have "length s = 4" by simp
  moreover from s h4 have "Number_str s = 2" by simp
  ultimately show ?thesis using e h3 g m by blast
qed

text \<open>
  The claim as stated fails once an inquiry is deleted between two generations: with two
  inquiries stored the generator gives suffix 0003; that inquiry is stored, the first
  inquiry is deleted through \<open>DELETE /api/inquiries/:id\<close>, and the next generation of the
  same month gives 0003 again, the number the stored third inquiry already has.
\<close>

theorem generateInquiryNumber_repeats_counterexample:
  "generateInquiryNumber [acme_inquiry, second_inquiry] (jan2024 1000) = ''INQ2024010003'' \<and>
   delete_inquiry (sample_db\<lparr>inquiries := [acme_inquiry, second_inquiry, third_inquiry]\<rparr>) ''inq1'' =
     (sample_db\<lparr>inquiries := [second_inquiry, third_inquiry]\<rparr>, Inr ()) \<and>
   generateInquiryNumber [second_inquiry, third_inquiry] (jan2024 9000) = ''INQ2024010003'' \<and>
   inquiryNumber third_inquiry = ''INQ2024010003''"
  by (simp add: number_eval acme_inquiry_def second_inquiry_def third_inquiry_def
      delete_inquiry_def Inquiry_findById_def Inquiry_findByIdAndDelete_def sample_db_def truthy_ref_def)

section \<open>Theorems: the customer link of an inquiry\<close>

lemma addNote_convertedTo: "convertedTo (addNote inq content userId isInternal now) = convertedTo inq"
  by (simp add: addNote_def)

lemma addNote_status: "i_status (addNote inq content userId isInternal now) = i_status inq"
  by (simp add: addNote_def)

lemma addNote_resolutionTime:
  "resolutionTime (addNote inq content userId isInternal now) = resolutionTime inq"
  by (simp add: addNote_def)

lemma updateStatus_customer:
  "cv_customer (convertedTo (updateStatus inq newStatus userId notes now)) = cv_customer (convertedTo inq)"
  by (simp add: updateStatus_def Let_def addNote_convertedTo)

lemma updateStatus_status:
  "i_status (updateStatus inq newStatus userId notes now) = newStatus"
  by (simp add: updateStatus_def Let_def addNote_status)

lemma updateStatus_converted_unset:
  "conversionDate (convertedTo inq) = None \<Longrightarrow>
   conversionDate (convertedTo (updateStatus inq ''converted'' userId notes now)) = Some now \<and>
   resolutionTime (updateStatus inq ''converted'' userId notes now) = Some now"
  by (simp add: updateStatus_def Let_def addNote_convertedTo addNote_resolutionTime truthy_ref_def)

lemma updateStatus_converted_set:
  "conversionDate (convertedTo inq) \<noteq> None \<Longrightarrow>
   conversionDate (convertedTo (updateStatus inq ''converted'' userId notes now)) =
     conversionDate (convertedTo inq) \<and>
   resolutionTime (updateStatus inq ''converted'' userId notes now) = resolutionTime inq"
  by (simp add: updateStatus_def Let_def addNote_convertedTo addNote_resolutionTime truthy_ref_def)

lemma call_method_customer:
  "\<not> is_ConvertToCustomer c \<Longrightarrow>
   cv_customer (convertedTo (call_method inq c now)) = cv_customer (convertedTo inq)"
  by (cases c)
    (simp_all add: updateStatus_customer addNote_convertedTo addCommunication_def assignTo_def
      scheduleFollowUp_def Let_def)

text \<open>
  Claim C10. \<open>updateStatus(inquiry, 'converted', actor, notes)\<close> sets the status to
  \<open>converted\<close>; when \<open>convertedTo.conversionDate\<close> was unset it sets that date and
  \<open>resolutionTime\<close> to the current time, and otherwise leaves both alone; it never writes
  \<open>convertedTo.customer\<close>. So an inquiry whose customer link is empty reaches the status
  \<open>converted\<close> with the link still empty. Of the six methods of the schema only
  \<open>convertToCustomer\<close> changes the link, and it sets it to the customer id it is given.
\<close>

theorem updateStatus_converted_link:
  "i_status (updateStatus inq ''converted'' actor notes now) = ''converted'' \<and>
   (conversionDate (convertedTo inq) = None \<longrightarrow>
      conversionDate (convertedTo (updateStatus inq ''converted'' actor notes now)) = Some now \<and>
      resolutionTime (updateStatus inq ''converted'' actor notes now) = Some now) \<and>
   (conversionDate (convertedTo inq) \<noteq> None \<longrightarrow>
      conversionDate (convertedTo (updateStatus inq ''converted'' actor notes now)) =
        conversionDate (convertedTo inq) \<and>
      resolutionTime (updateStatus inq ''converted'' actor notes now) = resolutionTime inq) \<and>
   cv_customer (convertedTo (updateStatus inq ''converted'' actor notes now)) =
     cv_customer (convertedTo inq) \<and>
   (cv_customer (convertedTo inq) = None \<longrightarrow>
      i_status (updateStatus inq ''converted'' actor notes now) = ''converted'' \<and>
      cv_customer (convertedTo (updateStatus inq ''converted'' actor notes now)) = None) \<and>
   (\<forall>c t. cv_customer (convertedTo (call_method inq c t)) \<noteq> cv_customer (convertedTo inq) \<longrightarrow>
      is_ConvertToCustomer c) \<and>
   (\<forall>customerId orderId v t.
      cv_customer (convertedTo (call_method inq (ConvertToCustomer customerId orderId v) t)) =
        Some customerId)"
proof -
  have a: "\<forall>c t. cv_customer (convertedTo (call_method inq c t)) \<noteq> cv_customer (convertedTo inq) \<longrightarrow>
      is_ConvertToCustomer c"
    using call_method_customer by blast
  have b: "\<forall>customerId orderId v t.
      cv_customer (convertedTo (call_method inq (ConvertToCustomer customerId orderId v) t)) =
        Some customerId"
    by (simp add: convertToCustomer_def)
  from a b updateStatus_converted_unset [of inq actor "notes" now]
    updateStatus_converted_set [of inq actor "notes" now]
  show ?thesis
    by (simp only: updateStatus_status updateStatus_customer) blast
qed

theorem updateStatus_converted_link_witness:
  "cv_customer (convertedTo acme_inquiry) = None \<and> conversionDate (convertedTo acme_inquiry) = None \<and>
   i_status (updateStatus acme_inquiry ''converted'' ''user7'' ''won'' (jan2024 900)) = ''converted'' \<and>
   conversionDate (convertedTo (updateStatus acme_inquiry ''converted'' ''user7'' ''won'' (jan2024 900)))
     = Some (jan2024 900) \<and>
   resolutionTime (updateStatus acme_inquiry ''converted'' ''user7'' ''won'' (jan2024 900))
     = Some (jan2024 900) \<and>
   cv_customer (convertedTo (updateStatus acme_inquiry ''converted'' ''user7'' ''won'' (jan2024 900))) = None \<and>
   cv_customer (convertedTo (call_method acme_inquiry (ConvertToCustomer ''cust1'' None 0) (jan2024 900)))
     = Some ''cust1'' \<and>
   is_ConvertToCustomer (ConvertToCustomer ''cust1'' None 0)"
proof -
  have n: "cv_customer (convertedTo acme_inquiry) = None \<and> conversionDate (convertedTo acme_inquiry) = None"
    by (simp add: acme_inquiry_def)
  have c: "cv_customer (convertedTo (call_method acme_inquiry (ConvertToCustomer ''cust1'' None 0) (jan2024 900)))
      \<noteq> cv_customer (convertedTo acme_inquiry)"
    by (simp add: acme_inquiry_def convertToCustomer_def)
  from n c updateStatus_converted_link [of acme_inquiry "''user7''" "''won''" "jan2024 900"]
  show ?thesis by blast
qed

section \<open>Theorems: the already-converted guard\<close>

text \<open>
  Claim C3, as amended. An inquiry whose status is \<open>converted\<close> and whose
  \<open>convertedTo.customer\<close> is set cannot be deleted: the route answers 400 (the
  business-rule error) and the collections are unchanged. Every other inquiry that is
  found is deleted, whatever its status.
\<close>

theorem delete_inquiry_converted:
  assumes "Inquiry_findById db inquiryId = Some inq"
  shows "(i_status inq = ''converted'' \<and> cv_customer (convertedTo inq) \<noteq> None \<longrightarrow>
            delete_inquiry db inquiryId = (db, Inl Cannot_delete_converted)) \<and>
         http_status Cannot_delete_converted = 400 \<and>
         (\<not> (i_status inq = ''converted'' \<and> cv_customer (convertedTo inq) \<noteq> None) \<longrightarrow>
            delete_inquiry db inquiryId = (Inquiry_findByIdAndDelete db inquiryId, Inr ()))"
  using assms by (simp add: delete_inquiry_def truthy_ref_def)

theorem delete_inquiry_converted_witness:
  "Inquiry_findById (sample_db\<lparr>inquiries := [converted_inquiry]\<rparr>) ''inq1'' = Some converted_inquiry \<and>
   i_status converted_inquiry = ''converted'' \<and>
   cv_customer (convertedTo converted_inquiry) = Some ''cust1'' \<and>
   delete_inquiry (sample_db\<lparr>inquiries := [converted_inquiry]\<rparr>) ''inq1'' =
     (sample_db\<lparr>inquiries := [converted_inquiry]\<rparr>, Inl Cannot_delete_converted)"
proof -
  have f: "Inquiry_findById (sample_db\<lparr>inquiries := [converted_inquiry]\<rparr>) ''inq1'' = Some converted_inquiry"
    by (simp add: Inquiry_findById_def converted_inquiry_def convertToCustomer_def acme_inquiry_def)
  have s: "i_status converted_inquiry = ''converted'' \<and>
      cv_customer (convertedTo converted_inquiry) = Some ''cust1''"
    by (simp add: converted_inquiry_def convertToCustomer_def)
  from f s delete_inquiry_converted [OF f] show ?thesis by simp
qed

text \<open>
  The claim as stated fails for an inquiry that \<open>updateStatus\<close> has set to \<open>converted\<close>
  without a customer link: it is deleted.
\<close>

theorem delete_inquiry_status_only_counterexample:
  "i_status status_only_inquiry = ''converted'' \<and>
   delete_inquiry (sample_db\<lparr>inquiries := [status_only_inquiry]\<rparr>) ''inq1'' =
     (sample_db\<lparr>inquiries := []\<rparr>, Inr ())"
  by (simp add: status_only_inquiry_def updateStatus_def Let_def acme_inquiry_def truthy_ref_def
      delete_inquiry_def Inquiry_findById_def Inquiry_findByIdAndDelete_def sample_db_def)

text \<open>
  Claim C2, as amended. A conversion request that passes validation, on an inquiry whose
  status is \<open>converted\<close> and whose \<open>convertedTo.customer\<close> is set, is answered with 400
  (the business-rule error) and nothing is written: no customer is created and the
  inquiry, with its \<open>convertedTo\<close>, stays as it was.
\<close>

theorem convert_already_converted:
  assumes "convert_validation body"
    and "Inquiry_findById db inquiryId = Some inq"
    and "i_status inq = ''converted''"
    and "cv_customer (convertedTo inq) \<noteq> None"
  shows "convert_to_customer db inquiryId body userId now newId = (db, Inl Already_converted) \<and>
         http_status Already_converted = 400"
  using assms by (simp add: convert_to_customer_def truthy_ref_def)

theorem convert_already_converted_witness:
  "convert_validation plain_body \<and>
   Inquiry_findById (sample_db\<lparr>customers := [acme_customer], inquiries := [converted_inquiry]\<rparr>) ''inq1''
     = Some converted_inquiry \<and>
   convert_to_customer (sample_db\<lparr>customers := [acme_customer], inquiries := [converted_inquiry]\<rparr>)
       ''inq1'' plain_body ''user7'' (jan2024 5000) ''cust2'' =
     (sample_db\<lparr>customers := [acme_customer], inquiries := [converted_inquiry]\<rparr>, Inl Already_converted)"
proof -
  have v: "convert_validation plain_body"
    by (simp add: convert_validation_def plain_body_def)
  have f: "Inquiry_findById (sample_db\<lparr>customers := [acme_customer], inquiries := [converted_inquiry]\<rparr>) ''inq1''
     = Some converted_inquiry"
    by (simp add: Inquiry_findById_def converted_inquiry_def convertToCustomer_def acme_inquiry_def)
  have s: "i_status converted_inquiry = ''converted''"
    by (simp add: converted_inquiry_def convertToCustomer_def)
  have c: "cv_customer (convertedTo converted_inquiry) \<noteq> None"
    by (simp add: converted_inquiry_def convertToCustomer_def)
  from v f convert_already_converted [OF v f s c] show ?thesis by simp
qed

lemmas convert_eval =
  convert_to_customer_def convert_validation_def plain_body_def Inquiry_findById_def
  Customer_findOne_email_def Customer_save_def Customer_insert_def Inquiry_save_def
  stamp_inquiry_def convertToCustomer_def addCommunication_def customer_addNote_def
  merge_inquiry_def merge_address_def new_customer_def address_defaults_def customer_valid_def
  truthy_str_def truthy_num_def truthy_ref_def or_str_def businessType_enum_def
  customer_status_enum_def customer_source_enum_def sample_db_def acme_inquiry_def
  acme_customer_def Let_def

text \<open>
  The claim as stated fails for an inquiry that keeps its customer link but whose status
  was moved away from \<open>converted\<close> (\<open>PUT /api/inquiries/:id\<close> accepts any status): the
  guard lets the request through, the conversion runs again and \<open>convertedTo\<close> is
  rewritten with a new conversion date.
\<close>

theorem convert_reopened_counterexample:
  "cv_customer (convertedTo reopened_inquiry) = Some ''cust1'' \<and>
   convertedTo reopened_inquiry =
     \<lparr>cv_order = None, cv_customer = Some ''cust1'', conversionDate = Some (jan2024 900),
      conversionValue = Some 0\<rparr> \<and>
   \<not> isl (snd (convert_to_customer
       (sample_db\<lparr>customers := [acme_customer], inquiries := [reopened_inquiry]\<rparr>)
       ''inq1'' plain_body ''user7'' (jan2024 5000) ''cust2'')) \<and>
   map_option convertedTo (Inquiry_findById (fst (convert_to_customer
       (sample_db\<lparr>customers := [acme_customer], inquiries := [reopened_inquiry]\<rparr>)
       ''inq1'' plain_body ''user7'' (jan2024 5000) ''cust2'')) ''inq1'') =
     Some \<lparr>cv_order = None, cv_customer = Some ''cust1'', conversionDate = Some (jan2024 5000),
      conversionValue = Some 0\<rparr> \<and>
   jan2024 5000 \<noteq> jan2024 900"
  by (simp add: convert_eval reopened_inquiry_def converted_inquiry_def jan2024_def)

section \<open>Theorems: conversion into a new customer\<close>

text \<open>
  What the new-customer branch does when the new document passes the validators of
  \<open>customerSchema\<close>: the customer is seeded from the inquiry and stored, and the inquiry is
  stamped with its id.
\<close>

lemma convert_new_customer:
  assumes "convert_validation body"
    and "Inquiry_findById db inquiryId = Some inq"
    and "\<not> (i_status inq = ''converted'' \<and> cv_customer (convertedTo inq) \<noteq> None)"
    and "Customer_findOne_email db (i_email inq) = None"
    and "status = (case customerStatus body of None \<Rightarrow> ''prospect'' | Some s \<Rightarrow> s)"
    and "customer_valid (new_customer inq body status userId now newId)"
    and "res = convert_to_customer db inquiryId body userId now newId"
  shows "\<exists>r. snd res = Inr r \<and> r_isNewCustomer r \<and>
           customers (fst res) = customers db @ [r_customer r] \<and>
           c_id (r_customer r) = newId \<and>
           c_name (r_customer r) = customerName inq \<and>
           c_email (r_customer r) = i_email inq \<and>
           c_phone (r_customer r) = Some (or_str (i_phone inq) []) \<and>
           c_company (r_customer r) = Some (or_str (i_company inq) []) \<and>
           c_businessType (r_customer r) = i_businessType inq \<and>
           c_industry (r_customer r) = Some (or_str (i_industry inq) []) \<and>
           c_employeeCount (r_customer r) =
             (if truthy_num (i_employeeCount inq) then i_employeeCount inq else None) \<and>
           c_source (r_customer r) = or_str (i_source inq) ''website'' \<and>
           c_status (r_customer r) = status \<and>
           c_assignedTo (r_customer r) =
             Some (if truthy_str (body_assignTo body) then the (body_assignTo body)
                   else if truthy_ref (i_assignedTo inq) then the (i_assignedTo inq)
                   else userId) \<and>
           i_status (r_inquiry r) = ''converted'' \<and>
           cv_customer (convertedTo (r_inquiry r)) = Some newId"
  using assms
  by (simp add: convert_to_customer_def stamp_inquiry_def Let_def truthy_ref_def
      customer_addNote_def Customer_insert_def Inquiry_save_def new_customer_def
      convertToCustomer_def addCommunication_def)

text \<open>
  The validators a new customer has to pass, in terms of the inquiry: among them, the
  inquiry's \<open>source\<close> has to be a value of the customer's \<open>source\<close> enum.
\<close>

lemma new_customer_valid_iff:
  "customer_valid (new_customer inq body status userId now newId) \<longleftrightarrow>
     customerName inq \<noteq> [] \<and> i_email inq \<noteq> [] \<and>
     (\<exists>b. i_businessType inq = Some b \<and> b \<in> set businessType_enum) \<and>
     (\<forall>n. i_employeeCount inq = Some n \<longrightarrow> n = 0 \<or> 1 \<le> n) \<and>
     status \<in> set customer_status_enum \<and>
     or_str (i_source inq) ''website'' \<in> set customer_source_enum"
  by (auto simp add: customer_valid_def new_customer_def truthy_num_def split: option.splits)

lemma convert_new_customer_rejected:
  assumes "convert_validation body"
    and "Inquiry_findById db inquiryId = Some inq"
    and "\<not> (i_status inq = ''converted'' \<and> cv_customer (convertedTo inq) \<noteq> None)"
    and "Customer_findOne_email db (i_email inq) = None"
    and "or_str (i_source inq) ''website'' \<notin> set customer_source_enum"
  shows "convert_to_customer db inquiryId body userId now newId = (db, Inl Server_error)"
  using assms
  by (simp add: convert_to_customer_def Let_def truthy_ref_def new_customer_valid_iff)

lemma inquiry_sources_rejected:
  "filter (\<lambda>s. s \<notin> set customer_source_enum) inquiry_source_enum = [''phone'', ''email'', ''walk-in'']"
  by (simp add: customer_source_enum_def inquiry_source_enum_def)

text \<open>
  Claim C9 at a failing input: the Acme inquiry with \<open>source = 'phone'\<close>, a value of the
  inquiry's \<open>source\<close> enum, and no customer with its email. \<open>customer.save()\<close> rejects the
  new document, because \<open>'phone'\<close> is not a value of the customer's \<open>source\<close> enum; the
  handler answers 500, no customer is created and the inquiry is not converted.
\<close>

theorem convert_phone_source_fails:
  "i_source phone_inquiry = Some ''phone'' \<and> ''phone'' \<in> set inquiry_source_enum \<and>
   ''phone'' \<notin> set customer_source_enum \<and>
   convert_to_customer (sample_db\<lparr>inquiries := [phone_inquiry]\<rparr>) ''inq1'' plain_body ''user7''
       (jan2024 5000) ''cust2'' =
     (sample_db\<lparr>inquiries := [phone_inquiry]\<rparr>, Inl Server_error) \<and>
   http_status Server_error = 500"
  by (simp add: convert_eval phone_inquiry_def inquiry_source_enum_def)

text \<open>The same request on the inquiry as submitted through the website succeeds.\<close>

lemma convert_website_source_succeeds:
  "\<not> isl (snd (convert_to_customer sample_db ''inq1'' plain_body ''user7'' (jan2024 5000) ''cust2'')) \<and>
   map (\<lambda>c. (c_id c, c_name c, c_status c, c_source c))
     (customers (fst (convert_to_customer sample_db ''inq1'' plain_body ''user7'' (jan2024 5000) ''cust2'')))
     = [(''cust2'', ''Acme School'', ''prospect'', ''website'')]"
  by (simp add: convert_eval)

section \<open>Theorems: merging into an existing customer\<close>

lemma merge_address_keeps:
  assumes "ca = Some c"
  shows "\<exists>c'. merge_address ia ca = Some c' \<and>
           (truthy_str (street c) \<longrightarrow> street c' = street c) \<and>
           (truthy_str (city c) \<longrightarrow> city c' = city c) \<and>
           (truthy_str (state c) \<longrightarrow> state c' = state c) \<and>
           (truthy_str (pincode c) \<longrightarrow> pincode c' = pincode c) \<and>
           (truthy_str (country c) \<longrightarrow> country c' = country c)"
proof (cases ia)
  case None
  with assms show ?thesis by (simp add: merge_address_def)
next
  case (Some a)
  define c1 where "c1 = (if truthy_str (street a) \<and> \<not> truthy_str (street c) then c\<lparr>street := street a\<rparr> else c)"
  define c2 where "c2 = (if truthy_str (city a) \<and> \<not> truthy_str (city c1) then c1\<lparr>city := city a\<rparr> else c1)"
  define c3 where "c3 = (if truthy_str (state a) \<and> \<not> truthy_str (state c2) then c2\<lparr>state := state a\<rparr> else c2)"
  define c4 where "c4 = (if truthy_str (pincode a) \<and> \<not> truthy_str (pincode c3) then c3\<lparr>pincode := pincode a\<rparr> else c3)"
  define c5 where "c5 = (if truthy_str (country a) \<and> \<not> truthy_str (country c4) then c4\<lparr>country := country a\<rparr> else c4)"
  have m: "merge_address ia ca = Some c5"
    by (simp only: merge_address_def Some assms option.case Let_def c1_def c2_def c3_def c4_def c5_def)
  have k1: "truthy_str (street c) \<longrightarrow> street c1 = street c" "city c1 = city c"
    "state c1 = state c" "pincode c1 = pincode c" "country c1 = country c"
    by (simp_all add: c1_def)
  have k2: "street c2 = street c1" "truthy_str (city c1) \<longrightarrow> city c2 = city c1"
    "state c2 = state c1" "pincode c2 = pincode c1" "country c2 = country c1"
    by (simp_all add: c2_def)
  have k3: "street c3 = street c2" "city c3 = city c2"
    "truthy_str (state c2) \<longrightarrow> state c3 = state c2" "pincode c3 = pincode c2" "country c3 = country c2"
    by (simp_all add: c3_def)
  have k4: "street c4 = street c3" "city c4 = city c3" "state c4 = state c3"
    "truthy_str (pincode c3) \<longrightarrow> pincode c4 = pincode c3" "country c4 = country c3"
    by (simp_all add: c4_def)
  have k5: "street c5 = street c4" "city c5 = city c4" "state c5 = state c4"
    "pincode c5 = pincode c4" "truthy_str (country c4) \<longrightarrow> country c5 = country c4"
    by (simp_all add: c5_def)
  from k1 k2 k3 k4 k5 show ?thesis by (simp add: m)
qed

text \<open>
  The guarded lines of the merge: a populated \<open>company\<close>, \<open>phone\<close>, \<open>industry\<close>,
  \<open>employeeCount\<close> or address subfield of the customer is kept.
\<close>

lemma merge_inquiry_keeps:
  "(truthy_str (c_company c) \<longrightarrow> c_company (merge_inquiry c inq) = c_company c) \<and>
   (truthy_str (c_phone c) \<longrightarrow> c_phone (merge_inquiry c inq) = c_phone c) \<and>
   (truthy_str (c_industry c) \<longrightarrow> c_industry (merge_inquiry c inq) = c_industry c) \<and>
   (truthy_num (c_employeeCount c) \<longrightarrow> c_employeeCount (merge_inquiry c inq) = c_employeeCount c) \<and>
   c_address (merge_inquiry c inq) = merge_address (i_address inq) (c_address c)"
  by (simp add: merge_inquiry_def Let_def)

text \<open>The line for \<open>businessType\<close> has no such guard.\<close>

lemma merge_inquiry_businessType:
  "c_businessType (merge_inquiry c inq) =
     (if truthy_str (i_businessType inq) then i_businessType inq else c_businessType c)"
  by (simp add: merge_inquiry_def Let_def)

text \<open>
  Claim C1 at a failing input: the Acme inquiry (\<open>businessType = 'school'\<close>) is converted
  while a customer with its email exists whose \<open>businessType\<close> is \<open>'corporate'\<close>. The merge
  keeps the customer's populated \<open>company\<close>, \<open>employeeCount\<close> and \<open>street\<close> and fills the
  empty \<open>phone\<close> and \<open>city\<close>, but it overwrites the populated \<open>businessType\<close> with the
  inquiry's.
\<close>

theorem convert_overwrites_businessType:
  "c_businessType acme_customer = Some ''corporate'' \<and>
   i_businessType acme_inquiry = Some ''school'' \<and>
   customers (fst (convert_to_customer (sample_db\<lparr>customers := [acme_customer]\<rparr>) ''inq1''
       plain_body ''user7'' (jan2024 5000) ''cust2'')) =
     [acme_customer\<lparr>c_phone := Some ''98450'',
        c_address := Some \<lparr>street = Some ''12 MG Road'', city = Some ''Pune'', state = None,
                            pincode = None, country = Some ''India''\<rparr>,
        c_businessType := Some ''school'',
        c_status := ''prospect'',
        c_notes := [\<lparr>cn_content = ''Converted from inquiry INQ2024010001'',
                      cn_createdBy = ''user7'', cn_createdAt = jan2024 5000\<rparr>],
        c_lastContact := Some (jan2024 5000)\<rparr>]"
  by (simp add: convert_eval)

section \<open>Theorems: deleting an order\<close>














end
